theory Spec2Isabelle
  imports Complex_Main "HOL-Library.Multiset"
begin

section \<open>Numbers and text\<close>

text \<open>
  Python floats are modelled by their exact values, as rationals: comparison, \<open>max\<close> and
  \<open>list.index\<close> on finite floats agree with the rationals, and arithmetic is taken exactly
  (binary rounding of each operation is not modelled; NaN and infinities are excluded).
\<close>

definition round_half_even :: "rat \<Rightarrow> int" where
  "round_half_even q =
     (let f = \<lfloor>q\<rfloor>; r = q - of_int f
      in if r < 1 / 2 then f
         else if 1 / 2 < r then f + 1
         else if even f then f else f + 1)"

text \<open>\<open>round(x, 3)\<close>: the decimal with three fractional digits nearest to \<open>x\<close>, ties to even.\<close>

definition py_round3 :: "rat \<Rightarrow> rat" where
  "py_round3 x = of_int (round_half_even (x * 1000)) / 1000"

definition digit_char :: "nat \<Rightarrow> char" where
  "digit_char d = ''0123456789'' ! d"

fun nat_str :: "nat \<Rightarrow> string" where
  "nat_str n = (if n < 10 then [digit_char n] else nat_str (n div 10) @ [digit_char (n mod 10)])"

declare nat_str.simps [simp del]


definition zfill :: "nat \<Rightarrow> string \<Rightarrow> string" where
  "zfill k s = replicate (k - length s) CHR ''0'' @ s"

text \<open>The format specification \<open>.kf\<close> (used with \<open>k = 2\<close> and \<open>k = 6\<close>).\<close>

definition fmt_fixed :: "nat \<Rightarrow> rat \<Rightarrow> string" where
  "fmt_fixed k q =
     (let n = nat (round_half_even (\<bar>q\<bar> * 10 ^ k))
      in (if q < 0 then ''-'' else '''') @ nat_str (n div 10 ^ k) @ ''.'' @
         zfill k (nat_str (n mod 10 ^ k)))"

definition upper_char :: "char \<Rightarrow> char" where
  "upper_char c =
     (let n = (of_char c :: nat) in if 97 \<le> n \<and> n \<le> 122 then char_of (n - 32) else c)"

definition upper :: "string \<Rightarrow> string" where
  "upper s = map upper_char s"

section \<open>The clock\<close>

record datetime =
  year :: nat
  month :: nat
  day :: nat
  hour :: nat
  minute :: nat
  second :: nat
  microsecond :: nat

text \<open>\<open>strftime("%Y%m%d_%H%M%S")\<close>\<close>

definition strftime :: "datetime \<Rightarrow> string" where
  "strftime t =
     zfill 4 (nat_str (year t)) @ zfill 2 (nat_str (month t)) @ zfill 2 (nat_str (day t)) @
     ''_'' @
     zfill 2 (nat_str (hour t)) @ zfill 2 (nat_str (minute t)) @ zfill 2 (nat_str (second t))"

definition isoformat :: "datetime \<Rightarrow> string" where
  "isoformat t =
     zfill 4 (nat_str (year t)) @ ''-'' @ zfill 2 (nat_str (month t)) @ ''-'' @
     zfill 2 (nat_str (day t)) @ ''T'' @
     zfill 2 (nat_str (hour t)) @ '':'' @ zfill 2 (nat_str (minute t)) @ '':'' @
     zfill 2 (nat_str (second t)) @
     (if microsecond t = 0 then '''' else ''.'' @ zfill 6 (nat_str (microsecond t)))"

section \<open>Frames, detections and the world of the inference pipeline\<close>

text \<open>
  A detection as the detector reports it: \<open>int(box.cls[0])\<close>, \<open>float(box.conf[0])\<close> and
  \<open>map(int, box.xyxy[0])\<close>.
\<close>

record box =
  cls :: int
  conf :: rat
  xyxy :: "int \<times> int \<times> int \<times> int"

type_synonym color = "nat \<times> nat \<times> nat"

text \<open>
  A frame is a pixel buffer that the drawing calls of OpenCV change in place; the calls are
  recorded in order, their rendering is left to OpenCV. \<open>PutText\<close> keeps text, origin and
  colour (font face, scale 0.8 and thickness 2 are constants of the call).
\<close>

datatype draw_op =
    Rectangle "int \<times> int" "int \<times> int" color nat
  | PutText string "int \<times> int" color

record 'p frame =
  pixels :: 'p
  drawn :: "draw_op list"

text \<open>
  The detector is an external model: a function from a frame and a confidence threshold to
  the ordered sequence of boxes.
\<close>

type_synonym 'p detector = "'p frame \<Rightarrow> rat \<Rightarrow> box list"

text \<open>
  What \<open>analyze_frame\<close> reads and writes besides its arguments: the clock
  (\<open>clock w n\<close> is what the \<open>n\<close>-th call of \<open>datetime.now()\<close> returns) and the files of
  the snapshot directory; \<open>can_write w p\<close> tells whether the file system accepts a write to
  the path \<open>p\<close>.
\<close>

record 'p world =
  clock :: "nat \<Rightarrow> datetime"
  reads :: nat
  snapshots :: "string \<rightharpoonup> 'p frame"
  can_write :: "string \<Rightarrow> bool"

datatype error =
    KeyError int | ValueError | IndexError | ZeroDivisionError | UnidentifiedImageError

definition datetime_now :: "'p world \<Rightarrow> datetime \<times> 'p world" where
  "datetime_now w = (clock w (reads w), w\<lparr>reads := Suc (reads w)\<rparr>)"

section \<open>models/detect\_api.py\<close>

definition THRESHOLD :: rat where
  "THRESHOLD = 1 / 2"

text \<open>The same dictionary is defined in \<open>detect_api.py\<close> and in \<open>detect.py\<close>.\<close>

definition CLASS_MAP :: "int \<rightharpoonup> string" where
  "CLASS_MAP = [0 \<mapsto> ''dry'', 1 \<mapsto> ''wet'']"

text \<open>
  \<open>cv2.imwrite\<close> on a frame the detector has accepted: it stores the frame and returns
  True, or returns False and stores nothing when the file cannot be written; it does not
  raise.
\<close>

definition imwrite :: "string \<Rightarrow> 'p frame \<Rightarrow> 'p world \<Rightarrow> bool \<times> 'p world" where
  "imwrite path fr w =
     (if can_write w path then (True, w\<lparr>snapshots := (snapshots w)(path \<mapsto> fr)\<rparr>)
      else (False, w))"

text \<open>\<open>save_snapshot\<close> does not look at what \<open>cv2.imwrite\<close> returns.\<close>

definition save_snapshot :: "'p frame \<Rightarrow> 'p world \<Rightarrow> string \<times> 'p world" where
  "save_snapshot fr w =
     (let (t, w1) = datetime_now w;
          filename = ''violation_'' @ strftime t @ ''.jpg'';
          filepath = ''snapshots/'' @ filename;
          (written, w2) = imwrite filepath fr w1
      in (filepath, w2))"

record frame_result =
  class_label :: "string option"
  wet_dry :: "string option"
  confidence :: "rat option"
  is_mixed :: bool
  is_violation :: bool
  snapshot_path :: "string option"
  timestamp :: string

text \<open>The loop over the boxes that fills \<open>waste_types\<close> and \<open>confidences\<close>.\<close>

fun collect :: "box list \<Rightarrow> string list \<Rightarrow> rat list \<Rightarrow> error + (string list \<times> rat list)" where
  "collect [] waste_types confidences = Inr (waste_types, confidences)"
| "collect (b # bs) waste_types confidences =
     (case CLASS_MAP (cls b) of
        None \<Rightarrow> Inl (KeyError (cls b))
      | Some t \<Rightarrow> collect bs (waste_types @ [t]) (confidences @ [conf b]))"

text \<open>\<open>max\<close> of a list keeps the first largest item; \<open>max([])\<close> raises ValueError.\<close>

fun py_max :: "rat list \<Rightarrow> rat option" where
  "py_max [] = None"
| "py_max (x # xs) = Some (foldl (\<lambda>m y. if m < y then y else m) x xs)"

text \<open>\<open>list.index\<close>: the first position of a value; ValueError when it is absent.\<close>

fun index :: "rat list \<Rightarrow> rat \<Rightarrow> nat option" where
  "index [] v = None"
| "index (x # xs) v = (if x = v then Some 0 else map_option Suc (index xs v))"

definition analyze_frame ::
    "'p detector \<Rightarrow> 'p frame \<Rightarrow> string \<Rightarrow> 'p world \<Rightarrow> error + (frame_result \<times> 'p world)" where
  "analyze_frame MODEL fr correct_bin w =
     (let detections = MODEL fr THRESHOLD in
      if length detections = 0 then
        (let (t, w1) = datetime_now w
         in Inr (\<lparr>class_label = None, wet_dry = None, confidence = None,
                  is_mixed = False, is_violation = False, snapshot_path = None,
                  timestamp = isoformat t\<rparr>, w1))
      else
        (case collect detections [] [] of
           Inl e \<Rightarrow> Inl e
         | Inr (waste_types, confidences) \<Rightarrow>
             (let mixed = (1 < card (set waste_types)) in
              case py_max confidences of
                None \<Rightarrow> Inl ValueError
              | Some m \<Rightarrow>
                  (case index confidences m of
                     None \<Rightarrow> Inl ValueError
                   | Some top_index \<Rightarrow>
                       if length waste_types \<le> top_index then Inl IndexError
                       else
                         (let top_type = waste_types ! top_index;
                              top_conf = m;
                              violation = (top_type \<noteq> correct_bin);
                              (path, w1) =
                                (if violation
                                 then (let (p, w') = save_snapshot fr w in (Some p, w'))
                                 else (None, w));
                              (t, w2) = datetime_now w1
                          in Inr (\<lparr>class_label = Some top_type, wet_dry = Some top_type,
                                   confidence = Some (py_round3 top_conf),
                                   is_mixed = mixed, is_violation = violation,
                                   snapshot_path = path,
                                   timestamp = isoformat t\<rparr>, w2))))))"

section \<open>models/detect.py\<close>

definition rectangle :: "'p frame \<Rightarrow> int \<times> int \<Rightarrow> int \<times> int \<Rightarrow> color \<Rightarrow> nat \<Rightarrow> 'p frame" where
  "rectangle fr p1 p2 c thickness = fr\<lparr>drawn := drawn fr @ [Rectangle p1 p2 c thickness]\<rparr>"

definition putText :: "'p frame \<Rightarrow> string \<Rightarrow> int \<times> int \<Rightarrow> color \<Rightarrow> 'p frame" where
  "putText fr s org c = fr\<lparr>drawn := drawn fr @ [PutText s org c]\<rparr>"

text \<open>
  The loop of \<open>detect_and_draw\<close>; \<open>BIN_TYPE\<close> is the module's global, \<open>violation\<close> the flag
  the loop sets.
\<close>

fun draw_boxes :: "box list \<Rightarrow> string \<Rightarrow> bool \<Rightarrow> 'p frame \<Rightarrow> error + (bool \<times> 'p frame)" where
  "draw_boxes [] BIN_TYPE violation fr = Inr (violation, fr)"
| "draw_boxes (b # bs) BIN_TYPE violation fr =
     (case CLASS_MAP (cls b) of
        None \<Rightarrow> Inl (KeyError (cls b))
      | Some waste_type \<Rightarrow>
          (let (x1, y1, x2, y2) = xyxy b;
               wrong_bin = (waste_type \<noteq> BIN_TYPE);
               violation' = (if wrong_bin then True else violation);
               color = (if \<not> wrong_bin then (0, 255, 0) else (0, 0, 255));
               label = upper waste_type @ '' ('' @ fmt_fixed 2 (conf b) @ '')'';
               fr1 = rectangle fr (x1, y1) (x2, y2) color 2;
               fr2 = putText fr1 label (x1, y1 - 10) color
           in draw_boxes bs BIN_TYPE violation' fr2))"

text \<open>\<open>THRESHOLD\<close> and \<open>BIN_TYPE\<close> are globals that the command line sets at start.\<close>

definition detect_and_draw ::
    "'p detector \<Rightarrow> rat \<Rightarrow> string \<Rightarrow> 'p frame \<Rightarrow> error + (bool \<times> 'p frame)" where
  "detect_and_draw model threshold BIN_TYPE fr =
     draw_boxes (model fr threshold) BIN_TYPE False fr"

section \<open>scripts/convert\_taco\_to\_yolo.py\<close>

subsection \<open>The manifest\<close>






subsection \<open>Split train/val/test\<close>

text \<open>
  \<open>int(0.8*n)\<close> and \<open>int(0.9*n)\<close>. The doubles nearest to 0.8 and 0.9 lie above them by
  less than one part in \<open>2 ^ 53\<close>, so the truncated double product is the floor of the exact
  product for every length a manifest can have.
\<close>

definition train_end :: "nat \<Rightarrow> nat" where
  "train_end n = nat \<lfloor>(8 / 10 :: rat) * of_nat n\<rfloor>"

definition val_end :: "nat \<Rightarrow> nat" where
  "val_end n = nat \<lfloor>(9 / 10 :: rat) * of_nat n\<rfloor>"

text \<open>
  Python's \<open>random\<close> module keeps the state of a generator: \<open>random.seed(a)\<close> replaces it by
  a state that depends on \<open>a\<close> alone, and \<open>random.shuffle(x)\<close> reorders \<open>x\<close> and advances
  the state. Both belong to the library, so the model takes them as parameters.
\<close>

record 'g random_lib =
  random_seed :: "int \<Rightarrow> 'g"
  random_shuffle :: "'g \<Rightarrow> int list \<Rightarrow> int list \<times> 'g"

text \<open>
  \<open>random.seed(42)\<close> at the head of the script and \<open>random.shuffle(image_ids)\<close> before the
  slices; \<open>g0\<close> is the state in which the interpreter has left the generator at start
  (drawn from the system's entropy), which the call of \<open>random.seed\<close> replaces.
\<close>

definition splits ::
    "'g random_lib \<Rightarrow> int \<Rightarrow> 'g \<Rightarrow> int list \<Rightarrow> int set \<times> int set \<times> int set" where
  "splits R seed g0 ids =
     (let g1 = random_seed R seed;
          (image_ids, g2) = random_shuffle R g1 ids;
          n = length image_ids;
          train_ids = set (take (train_end n) image_ids);
          val_ids = set (drop (train_end n) (take (val_end n) image_ids));
          test_ids = set (drop (val_end n) image_ids)
      in (train_ids, val_ids, test_ids))"

subsection \<open>Paths and files\<close>







subsection \<open>Convert COCO to YOLO\<close>









section \<open>Concrete scenarios\<close>

text \<open>A detector that reports the given boxes for every frame, those below the threshold left out.\<close>

definition stub_detector :: "box list \<Rightarrow> 'p detector" where
  "stub_detector ds fr threshold = filter (\<lambda>b. threshold \<le> conf b) ds"

text \<open>A clock that advances by one second per reading.\<close>

definition tick_clock :: "nat \<Rightarrow> datetime" where
  "tick_clock n = \<lparr>year = 2026, month = 1, day = 2, hour = 12, minute = 30,
                   second = n mod 60, microsecond = 0\<rparr>"

text \<open>An empty snapshot directory, on a disk that takes every write and on one that takes none.\<close>

definition world0 :: "unit world" where
  "world0 = \<lparr>clock = tick_clock, reads = 0, snapshots = Map.empty, can_write = (\<lambda>p. True)\<rparr>"

definition full_disk :: "unit world" where
  "full_disk = \<lparr>clock = tick_clock, reads = 0, snapshots = Map.empty, can_write = (\<lambda>p. False)\<rparr>"

definition blank :: "unit frame" where
  "blank = \<lparr>pixels = (), drawn = []\<rparr>"

text \<open>
  A stand-in for the library: the state is a number, and the shuffle rotates by it. On the
  ten identifiers 1 to 10, in rising and in falling order, it leaves them in an order that
  gives the splits that Python's generator gives after \<open>random.seed(42)\<close>.
\<close>

definition rotate_lib :: "nat random_lib" where
  "rotate_lib = \<lparr>random_seed = nat, random_shuffle = (\<lambda>g xs. (rotate g xs, Suc g))\<rparr>"

text \<open>Detection sequences: wet 0.9 before dry 0.6, dry 0.9 before wet 0.6, and single boxes.\<close>

definition wet_then_dry :: "box list" where
  "wet_then_dry = [\<lparr>cls = 1, conf = 9 / 10, xyxy = (10, 10, 50, 50)\<rparr>,
                   \<lparr>cls = 0, conf = 6 / 10, xyxy = (60, 60, 90, 90)\<rparr>]"

definition dry_then_wet :: "box list" where
  "dry_then_wet = [\<lparr>cls = 0, conf = 9 / 10, xyxy = (10, 10, 50, 50)\<rparr>,
                   \<lparr>cls = 1, conf = 6 / 10, xyxy = (60, 60, 90, 90)\<rparr>]"

definition tied_boxes :: "box list" where
  "tied_boxes = [\<lparr>cls = 0, conf = 6 / 10, xyxy = (0, 0, 5, 5)\<rparr>,
                 \<lparr>cls = 1, conf = 29 / 32, xyxy = (10, 10, 50, 50)\<rparr>,
                 \<lparr>cls = 0, conf = 29 / 32, xyxy = (60, 60, 90, 90)\<rparr>]"

definition one_wet :: "box list" where
  "one_wet = [\<lparr>cls = 1, conf = 29 / 32, xyxy = (10, 10, 50, 50)\<rparr>]"

definition overconfident :: "box list" where
  "overconfident = [\<lparr>cls = 0, conf = 3 / 2, xyxy = (10, 10, 50, 50)\<rparr>]"

definition unknown_class :: "box list" where
  "unknown_class = [\<lparr>cls = 1, conf = 9 / 10, xyxy = (10, 10, 50, 50)\<rparr>,
                    \<lparr>cls = 2, conf = 6 / 10, xyxy = (60, 60, 90, 90)\<rparr>]"

text \<open>A frame on which a box has been drawn already.\<close>

definition marked :: "unit frame" where
  "marked = \<lparr>pixels = (), drawn = [Rectangle (10, 10) (50, 50) (0, 0, 255) 2]\<rparr>"





section \<open>Vocabulary of the statements\<close>

text \<open>
  The detection at position \<open>i\<close> is dominant: it has the largest confidence, and every
  detection before it has a strictly smaller one.
\<close>

definition is_dominant :: "box list \<Rightarrow> nat \<Rightarrow> bool" where
  "is_dominant ds i \<longleftrightarrow>
     i < length ds \<and> (\<forall>j \<in> {0..<length ds}. conf (ds ! j) \<le> conf (ds ! i)) \<and>
     (\<forall>j \<in> {0..<i}. conf (ds ! j) < conf (ds ! i))"

text \<open>The class label of a detection whose class id is 0 or 1.\<close>

definition label_of :: "box \<Rightarrow> string" where
  "label_of d = (case CLASS_MAP (cls d) of Some t \<Rightarrow> t | None \<Rightarrow> [])"

text \<open>The path under which a snapshot taken in world \<open>w\<close> is stored.\<close>

definition snap_path :: "'p world \<Rightarrow> string" where
  "snap_path w = ''snapshots/violation_'' @ strftime (clock w (reads w)) @ ''.jpg''"

text \<open>The fields of a result that classify the frame.\<close>

definition verdict ::
    "frame_result \<Rightarrow> string option \<times> string option \<times> rat option \<times> bool \<times> bool" where
  "verdict out = (class_label out, wet_dry out, confidence out, is_mixed out, is_violation out)"

text \<open>The snapshot directory after \<open>save_snapshot\<close> has tried to store the frame \<open>fr\<close>.\<close>

definition snapshot_tried :: "'p world \<Rightarrow> 'p frame \<Rightarrow> (string \<rightharpoonup> 'p frame)" where
  "snapshot_tried w fr =
     (if can_write w (snap_path w) then (snapshots w)(snap_path w \<mapsto> fr) else snapshots w)"


section \<open>Auxiliary facts about the classifier\<close>

lemma CLASS_MAP_None: "CLASS_MAP k = None \<longleftrightarrow> k \<notin> {0, 1}"
  by (simp add: CLASS_MAP_def)

lemma collect_ok:
  "\<forall>d \<in> set ds. cls d \<in> {0, 1} \<Longrightarrow>
   collect ds wts cs = Inr (wts @ map label_of ds, cs @ map conf ds)"
proof (induction ds arbitrary: wts cs)
  case Nil
  then show ?case by simp
next
  case (Cons d ds)
  have "CLASS_MAP (cls d) = Some (label_of d)"
    using Cons.prems by (auto simp: CLASS_MAP_def label_of_def)
  then show ?case using Cons by simp
qed

lemma collect_err:
  "d \<in> set ds \<Longrightarrow> cls d \<notin> {0, 1} \<Longrightarrow> \<exists>k. k \<notin> {0, 1} \<and> collect ds wts cs = Inl (KeyError k)"
proof (induction ds arbitrary: wts cs)
  case Nil
  then show ?case by simp
next
  case (Cons b bs)
  show ?case
  proof (cases "CLASS_MAP (cls b)")
    case None
    then show ?thesis using CLASS_MAP_None [of "cls b"] by auto
  next
    case (Some t)
    then have "cls b \<in> {0, 1}" using CLASS_MAP_None [of "cls b"] by auto
    then have "d \<in> set bs" using Cons.prems by auto
    then show ?thesis using Cons.IH [OF _ Cons.prems(2)] Some by simp
  qed
qed

lemma foldl_keep_max: "foldl (\<lambda>m y. if m < y then y else m) x xs = Max (insert x (set xs))"
proof (induction xs arbitrary: x)
  case Nil
  then show ?case by simp
next
  case (Cons a xs)
  have m: "(if x < a then a else x) = max x a"
    by (auto simp: max_def)
  have "Max (insert (max x a) (set xs)) = Max (insert x (insert a (set xs)))"
    by (cases "set xs = {}") (simp_all add: max.assoc)
  then show ?case using Cons.IH [of "max x a"] m by simp
qed

lemma py_max_Max: "xs \<noteq> [] \<Longrightarrow> py_max xs = Some (Max (set xs))"
  by (cases xs) (simp_all add: foldl_keep_max)

lemma index_first:
  "v \<in> set xs \<Longrightarrow> \<exists>i. index xs v = Some i \<and> i < length xs \<and> xs ! i = v \<and> (\<forall>j<i. xs ! j \<noteq> v)"
proof (induction xs)
  case Nil
  then show ?case by simp
next
  case (Cons x xs)
  show ?case
  proof (cases "x = v")
    case True
    then show ?thesis by simp
  next
    case False
    then have "v \<in> set xs" using Cons.prems by simp
    then obtain i where i: "index xs v = Some i" "i < length xs" "xs ! i = v" "\<forall>j<i. xs ! j \<noteq> v"
      using Cons.IH by blast
    have "\<forall>j<Suc i. (x # xs) ! j \<noteq> v"
      using False i(4) by (auto simp: nth_Cons split: nat.splits)
    then show ?thesis using False i by auto
  qed
qed


lemma is_dominant_index:
  assumes "ds \<noteq> []"
  shows "\<exists>i. index (map conf ds) (Max (set (map conf ds))) = Some i \<and> is_dominant ds i \<and>
    Max (set (map conf ds)) = conf (ds ! i)"
proof -
  let ?cs = "map conf ds"
  have ne: "set ?cs \<noteq> {}" using assms by simp
  have "Max (set ?cs) \<in> set ?cs" using Max_in [OF _ ne] by simp
  then obtain i where i: "index ?cs (Max (set ?cs)) = Some i" "i < length ?cs"
      "?cs ! i = Max (set ?cs)" "\<forall>j<i. ?cs ! j \<noteq> Max (set ?cs)"
    using index_first by blast
  have le: "conf (ds ! j) \<le> conf (ds ! i)" if "j < length ds" for j
  proof -
    have "?cs ! j \<in> set ?cs" using that by (intro nth_mem) simp
    then have "?cs ! j \<le> Max (set ?cs)" by (intro Max_ge) simp_all
    then show ?thesis using that i by simp
  qed
  have lt: "conf (ds ! j) < conf (ds ! i)" if "j < i" for j
  proof -
    have "j < length ds" using that i by simp
    then have "conf (ds ! j) \<le> conf (ds ! i)" by (rule le)
    moreover have "conf (ds ! j) \<noteq> conf (ds ! i)" using i that by auto
    ultimately show ?thesis by simp
  qed
  have "is_dominant ds i" using i le lt by (auto simp: is_dominant_def)
  moreover have "Max (set ?cs) = conf (ds ! i)" using i(2,3) by simp
  ultimately show ?thesis using i(1) by blast
qed

lemma is_dominant_unique: "is_dominant ds i \<Longrightarrow> is_dominant ds j \<Longrightarrow> i = j"
  unfolding is_dominant_def
  by (metis atLeastLessThan_iff linorder_neqE_nat not_less zero_le)

lemma analyze_frame_nonempty:
  assumes ne: "MODEL fr THRESHOLD \<noteq> []"
    and ok: "\<forall>d \<in> set (MODEL fr THRESHOLD). cls d \<in> {0, 1}"
  shows "\<exists>i. is_dominant (MODEL fr THRESHOLD) i \<and>
     (\<forall>correct_bin w. analyze_frame MODEL fr correct_bin w =
       (let top = MODEL fr THRESHOLD ! i;
            v = (label_of top \<noteq> correct_bin)
        in Inr (\<lparr>class_label = Some (label_of top), wet_dry = Some (label_of top),
                 confidence = Some (py_round3 (conf top)),
                 is_mixed = (1 < card (set (map label_of (MODEL fr THRESHOLD)))),
                 is_violation = v,
                 snapshot_path = (if v then Some (snap_path w) else None),
                 timestamp = isoformat (clock w (if v then Suc (reads w) else reads w))\<rparr>,
                if v then w\<lparr>reads := Suc (Suc (reads w)),
                            snapshots := snapshot_tried w fr\<rparr>
                else w\<lparr>reads := Suc (reads w)\<rparr>)))"
proof -
  let ?ds = "MODEL fr THRESHOLD"
  obtain i where i: "index (map conf ?ds) (Max (set (map conf ?ds))) = Some i" "is_dominant ?ds i"
      and top: "Max (set (map conf ?ds)) = conf (?ds ! i)"
    using is_dominant_index [OF ne] by blast
  have il: "i < length ?ds" using i(2) by (simp add: is_dominant_def)
  have c: "collect ?ds [] [] = Inr (map label_of ?ds, map conf ?ds)"
    using collect_ok [OF ok, of "[]" "[]"] by simp
  have m: "py_max (map conf ?ds) = Some (Max (set (map conf ?ds)))"
    using ne by (intro py_max_Max) simp
  have "analyze_frame MODEL fr correct_bin w =
       (let top = ?ds ! i;
            v = (label_of top \<noteq> correct_bin)
        in Inr (\<lparr>class_label = Some (label_of top), wet_dry = Some (label_of top),
                 confidence = Some (py_round3 (conf top)),
                 is_mixed = (1 < card (set (map label_of ?ds))),
                 is_violation = v,
                 snapshot_path = (if v then Some (snap_path w) else None),
                 timestamp = isoformat (clock w (if v then Suc (reads w) else reads w))\<rparr>,
                if v then w\<lparr>reads := Suc (Suc (reads w)),
                            snapshots := snapshot_tried w fr\<rparr>
                else w\<lparr>reads := Suc (reads w)\<rparr>))" for correct_bin w
    unfolding analyze_frame_def
    using ne il
    by (simp add: c m i(1) top [symmetric] Let_def save_snapshot_def imwrite_def snapshot_tried_def datetime_now_def snap_path_def
        del: set_map)
  then show ?thesis using i(2) by blast
qed

lemma analyze_frame_empty:
  assumes "MODEL fr THRESHOLD = []"
  shows "analyze_frame MODEL fr correct_bin w =
     Inr (\<lparr>class_label = None, wet_dry = None, confidence = None, is_mixed = False,
            is_violation = False, snapshot_path = None,
            timestamp = isoformat (clock w (reads w))\<rparr>, w\<lparr>reads := Suc (reads w)\<rparr>)"
  using assms by (simp add: analyze_frame_def datetime_now_def)

lemma analyze_frame_err:
  assumes "d \<in> set (MODEL fr THRESHOLD)" and "cls d \<notin> {0, 1}"
  shows "\<exists>k. k \<notin> {0, 1} \<and> (\<forall>w. analyze_frame MODEL fr correct_bin w = Inl (KeyError k))"
proof -
  obtain k where k: "k \<notin> {0, 1}" "collect (MODEL fr THRESHOLD) [] [] = Inl (KeyError k)"
    using collect_err [OF assms] by blast
  have "MODEL fr THRESHOLD \<noteq> []" using assms(1) by auto
  then have "analyze_frame MODEL fr correct_bin w = Inl (KeyError k)" for w
    by (simp add: analyze_frame_def k(2))
  then show ?thesis using k(1) by blast
qed

lemma draw_boxes_ok:
  "\<forall>d \<in> set ds. cls d \<in> {0, 1} \<Longrightarrow>
   \<exists>fr'. draw_boxes ds BIN_TYPE v fr = Inr (v \<or> (\<exists>d \<in> set ds. label_of d \<noteq> BIN_TYPE), fr')"
proof (induction ds arbitrary: v fr)
  case Nil
  then show ?case by simp
next
  case (Cons b bs)
  have b: "CLASS_MAP (cls b) = Some (label_of b)"
    using Cons.prems by (auto simp: CLASS_MAP_def label_of_def)
  have bs: "\<forall>d \<in> set bs. cls d \<in> {0, 1}" using Cons.prems by simp
  obtain x1 y1 x2 y2 where q: "xyxy b = (x1, y1, x2, y2)" by (cases "xyxy b") auto
  show ?case
  proof (cases "label_of b = BIN_TYPE")
    case True
    then show ?thesis
      using Cons.IH [OF bs, of v] by (simp add: b q Let_def)
  next
    case False
    then show ?thesis
      using Cons.IH [OF bs, of True] by (simp add: b q Let_def)
  qed
qed

lemma draw_boxes_err:
  "d \<in> set ds \<Longrightarrow> cls d \<notin> {0, 1} \<Longrightarrow>
   \<exists>k. k \<notin> {0, 1} \<and> draw_boxes ds BIN_TYPE v fr = Inl (KeyError k)"
proof (induction ds arbitrary: v fr)
  case Nil
  then show ?case by simp
next
  case (Cons b bs)
  show ?case
  proof (cases "CLASS_MAP (cls b)")
    case None
    then show ?thesis using CLASS_MAP_None [of "cls b"] by auto
  next
    case (Some t)
    then have "cls b \<in> {0, 1}" using CLASS_MAP_None [of "cls b"] by auto
    then have "d \<in> set bs" using Cons.prems by auto
    then show ?thesis
      using Cons.IH [OF _ Cons.prems(2)] Some by (simp add: Let_def split: prod.splits)
  qed
qed

lemma label_of_Some: "cls d \<in> {0, 1} \<Longrightarrow> CLASS_MAP (cls d) = Some (label_of d)"
  by (auto simp: CLASS_MAP_def label_of_def)

lemma py_round3_close: "\<exists>k::int. py_round3 c = of_int k / 1000 \<and> \<bar>py_round3 c - c\<bar> \<le> 1 / 2000"
proof -
  define q where "q = c * 1000"
  define f where "f = \<lfloor>q\<rfloor>"
  have f: "of_int f \<le> q" "q < of_int f + 1" by (simp_all add: f_def) linarith
  have "\<bar>of_int (round_half_even q) - q\<bar> \<le> 1 / 2"
    using f unfolding round_half_even_def Let_def f_def [symmetric] by auto
  then have "\<bar>of_int (round_half_even q) / 1000 - c\<bar> \<le> 1 / 2000"
    by (simp add: q_def abs_le_iff field_simps)
  then show ?thesis unfolding py_round3_def q_def by blast
qed

lemma analyze_frame_eval:
  assumes "MODEL fr THRESHOLD = ds" and "ds \<noteq> []"
    and "collect ds [] [] = Inr (wts, cs)"
    and "py_max cs = Some m" and "index cs m = Some k" and "k < length wts"
    and "wts ! k = top_type" and "(1 < card (set wts)) = mixed" and "py_round3 m = shown"
  shows "analyze_frame MODEL fr correct_bin w =
     (if top_type \<noteq> correct_bin
      then Inr (\<lparr>class_label = Some top_type, wet_dry = Some top_type, confidence = Some shown,
                  is_mixed = mixed, is_violation = True, snapshot_path = Some (snap_path w),
                  timestamp = isoformat (clock w (Suc (reads w)))\<rparr>,
                w\<lparr>reads := Suc (Suc (reads w)), snapshots := snapshot_tried w fr\<rparr>)
      else Inr (\<lparr>class_label = Some top_type, wet_dry = Some top_type, confidence = Some shown,
                  is_mixed = mixed, is_violation = False, snapshot_path = None,
                  timestamp = isoformat (clock w (reads w))\<rparr>,
                w\<lparr>reads := Suc (reads w)\<rparr>))"
  unfolding analyze_frame_def assms(1)
  using assms(2,6,8)
  by (simp add: assms(3,4,5) assms(7,9) Let_def save_snapshot_def imwrite_def snapshot_tried_def datetime_now_def snap_path_def
      del: set_simps)

lemma analyze_frame_fails:
  assumes "analyze_frame MODEL fr correct_bin w = Inl e"
  shows "\<exists>d \<in> set (MODEL fr THRESHOLD). cls d \<notin> {0, 1}"
proof (rule ccontr)
  assume "\<not> (\<exists>d \<in> set (MODEL fr THRESHOLD). cls d \<notin> {0, 1})"
  then have ok: "\<forall>d \<in> set (MODEL fr THRESHOLD). cls d \<in> {0, 1}" by blast
  show False
  proof (cases "MODEL fr THRESHOLD = []")
    case True
    then show False using analyze_frame_empty [of MODEL fr correct_bin w] assms by simp
  next
    case False
    then obtain i where "analyze_frame MODEL fr correct_bin w =
       (let top = MODEL fr THRESHOLD ! i; v = (label_of top \<noteq> correct_bin)
        in Inr (\<lparr>class_label = Some (label_of top), wet_dry = Some (label_of top),
                 confidence = Some (py_round3 (conf top)),
                 is_mixed = (1 < card (set (map label_of (MODEL fr THRESHOLD)))),
                 is_violation = v,
                 snapshot_path = (if v then Some (snap_path w) else None),
                 timestamp = isoformat (clock w (if v then Suc (reads w) else reads w))\<rparr>,
                if v then w\<lparr>reads := Suc (Suc (reads w)),
                            snapshots := snapshot_tried w fr\<rparr>
                else w\<lparr>reads := Suc (reads w)\<rparr>))"
      using analyze_frame_nonempty [of MODEL fr] ok by blast
    then show False using assms by (simp add: Let_def)
  qed
qed

lemma analyze_frame_shape:
  "(\<exists>k. \<forall>w. analyze_frame MODEL fr correct_bin w = Inl (KeyError k)) \<or>
   (\<exists>c s m v. \<forall>w. analyze_frame MODEL fr correct_bin w =
      Inr (\<lparr>class_label = c, wet_dry = c, confidence = s, is_mixed = m, is_violation = v,
             snapshot_path = (if v then Some (snap_path w) else None),
             timestamp = isoformat (clock w (if v then Suc (reads w) else reads w))\<rparr>,
           if v then w\<lparr>reads := Suc (Suc (reads w)),
                       snapshots := snapshot_tried w fr\<rparr>
           else w\<lparr>reads := Suc (reads w)\<rparr>))"
proof (cases "\<forall>d \<in> set (MODEL fr THRESHOLD). cls d \<in> {0, 1}")
  case False
  then obtain d where "d \<in> set (MODEL fr THRESHOLD)" "cls d \<notin> {0, 1}" by blast
  then show ?thesis using analyze_frame_err [of d MODEL fr correct_bin] by blast
next
  case ok: True
  show ?thesis
  proof (cases "MODEL fr THRESHOLD = []")
    case True
    have "\<forall>w. analyze_frame MODEL fr correct_bin w =
      Inr (\<lparr>class_label = None, wet_dry = None, confidence = None, is_mixed = False,
             is_violation = False,
             snapshot_path = (if False then Some (snap_path w) else None),
             timestamp = isoformat (clock w (if False then Suc (reads w) else reads w))\<rparr>,
           if False then w\<lparr>reads := Suc (Suc (reads w)),
                       snapshots := snapshot_tried w fr\<rparr>
           else w\<lparr>reads := Suc (reads w)\<rparr>)"
      using analyze_frame_empty [of MODEL fr correct_bin] True by simp
    then show ?thesis by blast
  next
    case False
    then obtain i where "\<forall>w. analyze_frame MODEL fr correct_bin w =
       (let top = MODEL fr THRESHOLD ! i; v = (label_of top \<noteq> correct_bin)
        in Inr (\<lparr>class_label = Some (label_of top), wet_dry = Some (label_of top),
                 confidence = Some (py_round3 (conf top)),
                 is_mixed = (1 < card (set (map label_of (MODEL fr THRESHOLD)))),
                 is_violation = v,
                 snapshot_path = (if v then Some (snap_path w) else None),
                 timestamp = isoformat (clock w (if v then Suc (reads w) else reads w))\<rparr>,
                if v then w\<lparr>reads := Suc (Suc (reads w)),
                            snapshots := snapshot_tried w fr\<rparr>
                else w\<lparr>reads := Suc (reads w)\<rparr>))"
      using analyze_frame_nonempty [of MODEL fr] ok by blast
    then have "\<forall>w. analyze_frame MODEL fr correct_bin w =
      Inr (\<lparr>class_label = Some (label_of (MODEL fr THRESHOLD ! i)),
             wet_dry = Some (label_of (MODEL fr THRESHOLD ! i)),
             confidence = Some (py_round3 (conf (MODEL fr THRESHOLD ! i))),
             is_mixed = (1 < card (set (map label_of (MODEL fr THRESHOLD)))),
             is_violation = (label_of (MODEL fr THRESHOLD ! i) \<noteq> correct_bin),
             snapshot_path = (if label_of (MODEL fr THRESHOLD ! i) \<noteq> correct_bin
                              then Some (snap_path w) else None),
             timestamp = isoformat (clock w (if label_of (MODEL fr THRESHOLD ! i) \<noteq> correct_bin
                              then Suc (reads w) else reads w))\<rparr>,
           if label_of (MODEL fr THRESHOLD ! i) \<noteq> correct_bin
           then w\<lparr>reads := Suc (Suc (reads w)),
                  snapshots := snapshot_tried w fr\<rparr>
           else w\<lparr>reads := Suc (reads w)\<rparr>)"
      by (simp add: Let_def)
    then show ?thesis by blast
  qed
qed

lemma analyze_frame_collect_err:
  assumes "collect (MODEL fr THRESHOLD) [] [] = Inl e"
  shows "analyze_frame MODEL fr correct_bin w = Inl e"
proof -
  have "MODEL fr THRESHOLD \<noteq> []" using assms by auto
  then show ?thesis by (simp add: analyze_frame_def assms)
qed

lemma analyze_frame_verdict:
  assumes "MODEL fr THRESHOLD = MODEL' fr' THRESHOLD"
  shows "map_sum id (verdict \<circ> fst) (analyze_frame MODEL fr correct_bin w) =
         map_sum id (verdict \<circ> fst) (analyze_frame MODEL' fr' correct_bin w2)"
proof (cases "\<forall>d \<in> set (MODEL fr THRESHOLD). cls d \<in> {0, 1}")
  case False
  then obtain d where d: "d \<in> set (MODEL fr THRESHOLD)" "cls d \<notin> {0, 1}" by blast
  obtain k where k: "collect (MODEL fr THRESHOLD) [] [] = Inl (KeyError k)"
    using collect_err [OF d, of "[]" "[]"] by blast
  have k': "collect (MODEL' fr' THRESHOLD) [] [] = Inl (KeyError k)"
    using k assms by simp
  show ?thesis
    using analyze_frame_collect_err [of MODEL fr "KeyError k" correct_bin w, OF k]
      analyze_frame_collect_err [of MODEL' fr' "KeyError k" correct_bin w2, OF k']
    by simp
next
  case ok: True
  then have ok': "\<forall>d \<in> set (MODEL' fr' THRESHOLD). cls d \<in> {0, 1}" using assms by simp
  show ?thesis
  proof (cases "MODEL fr THRESHOLD = []")
    case True
    then have "MODEL' fr' THRESHOLD = []" using assms by simp
    then show ?thesis
      using analyze_frame_empty [of MODEL fr correct_bin w] True
        analyze_frame_empty [of MODEL' fr' correct_bin w2]
      by (simp add: verdict_def)
  next
    case False
    then have ne': "MODEL' fr' THRESHOLD \<noteq> []" using assms by simp
    obtain i where i: "is_dominant (MODEL fr THRESHOLD) i"
      and r: "analyze_frame MODEL fr correct_bin w =
       (let top = MODEL fr THRESHOLD ! i; v = (label_of top \<noteq> correct_bin)
        in Inr (\<lparr>class_label = Some (label_of top), wet_dry = Some (label_of top),
                 confidence = Some (py_round3 (conf top)),
                 is_mixed = (1 < card (set (map label_of (MODEL fr THRESHOLD)))),
                 is_violation = v,
                 snapshot_path = (if v then Some (snap_path w) else None),
                 timestamp = isoformat (clock w (if v then Suc (reads w) else reads w))\<rparr>,
                if v then w\<lparr>reads := Suc (Suc (reads w)),
                            snapshots := snapshot_tried w fr\<rparr>
                else w\<lparr>reads := Suc (reads w)\<rparr>))"
      using analyze_frame_nonempty [of MODEL fr] False ok by blast
    obtain j where j: "is_dominant (MODEL' fr' THRESHOLD) j"
      and r': "analyze_frame MODEL' fr' correct_bin w2 =
       (let top = MODEL' fr' THRESHOLD ! j; v = (label_of top \<noteq> correct_bin)
        in Inr (\<lparr>class_label = Some (label_of top), wet_dry = Some (label_of top),
                 confidence = Some (py_round3 (conf top)),
                 is_mixed = (1 < card (set (map label_of (MODEL' fr' THRESHOLD)))),
                 is_violation = v,
                 snapshot_path = (if v then Some (snap_path w2) else None),
                 timestamp = isoformat (clock w2 (if v then Suc (reads w2) else reads w2))\<rparr>,
                if v then w2\<lparr>reads := Suc (Suc (reads w2)),
                            snapshots := snapshot_tried w2 fr'\<rparr>
                else w2\<lparr>reads := Suc (reads w2)\<rparr>))"
      using analyze_frame_nonempty [of MODEL' fr'] ne' ok' by blast
    have "j = i" using i j assms is_dominant_unique [of "MODEL fr THRESHOLD" j i] by simp
    then show ?thesis
      unfolding r r' by (simp add: Let_def verdict_def assms)
  qed
qed

section \<open>Auxiliary facts about the dataset conversion\<close>

lemma train_end_div: "train_end n = 4 * n div 5"
proof -
  have "(8 / 10 :: rat) * of_nat n = of_int (4 * int n) / of_int 5" by simp
  then have "\<lfloor>(8 / 10 :: rat) * of_nat n\<rfloor> = (4 * int n) div 5"
    by (simp only: floor_divide_of_int_eq)
  then show ?thesis
    unfolding train_end_def by (simp add: nat_div_distrib nat_mult_distrib)
qed

lemma val_end_div: "val_end n = 9 * n div 10"
proof -
  have "(9 / 10 :: rat) * of_nat n = of_int (9 * int n) / of_int 10" by simp
  then have "\<lfloor>(9 / 10 :: rat) * of_nat n\<rfloor> = (9 * int n) div 10"
    by (simp only: floor_divide_of_int_eq)
  then show ?thesis
    unfolding val_end_def by (simp add: nat_div_distrib nat_mult_distrib)
qed

lemma split_parts:
  assumes "distinct s" and "a \<le> b"
  shows "set (take a s) \<inter> set (drop a (take b s)) = {}"
    and "set (take a s) \<inter> set (drop b s) = {}"
    and "set (drop a (take b s)) \<inter> set (drop b s) = {}"
    and "set (take a s) \<union> set (drop a (take b s)) \<union> set (drop b s) = set s"
    and "card (set (take a s)) = min (length s) a"
    and "card (set (drop a (take b s))) = min (length s) b - a"
    and "card (set (drop b s)) = length s - b"
proof -
  have d1: "set (take a s) \<inter> set (drop a s) = {}"
    using assms(1) by (rule set_take_disj_set_drop_if_distinct) simp
  have d2: "set (take b s) \<inter> set (drop b s) = {}"
    using assms(1) by (rule set_take_disj_set_drop_if_distinct) simp
  have s1: "set (drop a (take b s)) \<subseteq> set (drop a s)"
    by (simp add: drop_take set_take_subset)
  have s2: "set (drop a (take b s)) \<subseteq> set (take b s)"
    by (rule set_drop_subset)
  have s3: "set (drop b s) \<subseteq> set (drop a s)"
    using assms(2) by (rule set_drop_subset_set_drop)
  show "set (take a s) \<inter> set (drop a (take b s)) = {}" using d1 s1 by blast
  show "set (take a s) \<inter> set (drop b s) = {}" using d1 s3 by blast
  show "set (drop a (take b s)) \<inter> set (drop b s) = {}" using d2 s2 by blast
  have "take a s @ drop a (take b s) @ drop b s = s"
  proof -
    have "take a s = take a (take b s)" using assms(2) by (simp add: min_def)
    then have "take a s @ drop a (take b s) = take b s" by (metis append_take_drop_id)
    then show ?thesis by (metis append.assoc append_take_drop_id)
  qed
  then have "set (take a s @ drop a (take b s) @ drop b s) = set s" by simp
  then show "set (take a s) \<union> set (drop a (take b s)) \<union> set (drop b s) = set s"
    by (simp add: Un_assoc)
  show "card (set (take a s)) = min (length s) a"
    using assms(1) by (simp add: distinct_card)
  show "card (set (drop a (take b s))) = min (length s) b - a"
    using assms(1) by (simp add: distinct_card)
  show "card (set (drop b s)) = length s - b"
    using assms(1) by (simp add: distinct_card)
qed

lemma mset_rotate_eq: "mset (rotate n xs) = mset xs"
proof -
  have "mset (drop k xs @ take k xs) = mset (take k xs @ drop k xs)" for k
    by (simp only: mset_append union_commute)
  then show ?thesis by (simp only: rotate_drop_take append_take_drop_id)
qed


lemma nat_str_large: "10 \<le> n \<Longrightarrow> nat_str n = nat_str (n div 10) @ [digit_char (n mod 10)]"
  by (subst nat_str.simps) simp










section \<open>The violation classifier\<close>

text \<open>
  C6. On the empty detection sequence, for every expected bin, \<open>analyze_frame\<close> returns a
  result without dominant class and confidence, with \<open>is_violation\<close> and \<open>is_mixed\<close> false
  (and without snapshot); it reads the clock once for the timestamp.
\<close>

theorem C6_empty_sequence:
  assumes "MODEL fr THRESHOLD = []"
  shows "analyze_frame MODEL fr correct_bin w =
     Inr (\<lparr>class_label = None, wet_dry = None, confidence = None, is_mixed = False,
            is_violation = False, snapshot_path = None,
            timestamp = isoformat (clock w (reads w))\<rparr>, w\<lparr>reads := Suc (reads w)\<rparr>)"
  using assms by (simp add: analyze_frame_def datetime_now_def)

theorem C6_empty_sequence_witness:
  "analyze_frame (stub_detector []) blank ''wet'' world0 =
     Inr (\<lparr>class_label = None, wet_dry = None, confidence = None, is_mixed = False,
            is_violation = False, snapshot_path = None,
            timestamp = ''2026-01-02T12:30:00''\<rparr>, world0\<lparr>reads := 1\<rparr>)"
proof -
  have e: "stub_detector [] blank THRESHOLD = []" by (simp add: stub_detector_def)
  have t: "isoformat (clock world0 (reads world0)) = ''2026-01-02T12:30:00''" by code_simp
  show ?thesis
    using C6_empty_sequence [of "stub_detector []" blank "''wet''" world0] e t
    by (simp add: world0_def)
qed

text \<open>
  C1 (as amended). On a non-empty detection sequence with class ids 0 and 1,
  \<open>analyze_frame\<close> sets \<open>is_violation\<close> exactly when the class of the dominant detection (the
  first one of largest confidence) differs from the expected bin, so a lower-confidence
  mismatch does not make a violation there. \<open>detect_and_draw\<close> follows another rule: it
  reports a violation exactly when the class of at least one detection differs from
  \<open>BIN_TYPE\<close>.
\<close>

theorem C1_violation_rule:
  assumes "MODEL fr THRESHOLD \<noteq> []"
    and "\<forall>d \<in> set (MODEL fr THRESHOLD). cls d \<in> {0, 1}"
    and "\<forall>d \<in> set (model fr' threshold). cls d \<in> {0, 1}"
  shows "(\<exists>i out w'. is_dominant (MODEL fr THRESHOLD) i \<and>
            analyze_frame MODEL fr correct_bin w = Inr (out, w') \<and>
            (is_violation out \<longleftrightarrow> CLASS_MAP (cls (MODEL fr THRESHOLD ! i)) \<noteq> Some correct_bin)) \<and>
         (\<exists>fr''. detect_and_draw model threshold BIN_TYPE fr' =
            Inr (\<exists>d \<in> set (model fr' threshold). CLASS_MAP (cls d) \<noteq> Some BIN_TYPE, fr''))"
proof
  let ?ds = "MODEL fr THRESHOLD"
  obtain i where i: "is_dominant ?ds i"
    and r: "analyze_frame MODEL fr correct_bin w =
       (let top = ?ds ! i; v = (label_of top \<noteq> correct_bin)
        in Inr (\<lparr>class_label = Some (label_of top), wet_dry = Some (label_of top),
                 confidence = Some (py_round3 (conf top)),
                 is_mixed = (1 < card (set (map label_of ?ds))),
                 is_violation = v,
                 snapshot_path = (if v then Some (snap_path w) else None),
                 timestamp = isoformat (clock w (if v then Suc (reads w) else reads w))\<rparr>,
                if v then w\<lparr>reads := Suc (Suc (reads w)),
                            snapshots := snapshot_tried w fr\<rparr>
                else w\<lparr>reads := Suc (reads w)\<rparr>))"
    using analyze_frame_nonempty [of MODEL fr] assms(1,2) by blast
  have "?ds ! i \<in> set ?ds" using i by (simp add: is_dominant_def)
  then have "CLASS_MAP (cls (?ds ! i)) = Some (label_of (?ds ! i))"
    using assms(2) label_of_Some by blast
  then show "\<exists>i out w'. is_dominant ?ds i \<and>
            analyze_frame MODEL fr correct_bin w = Inr (out, w') \<and>
            (is_violation out \<longleftrightarrow> CLASS_MAP (cls (?ds ! i)) \<noteq> Some correct_bin)"
    using i r by (auto simp: Let_def)
next
  let ?bs = "model fr' threshold"
  have "(\<exists>d \<in> set ?bs. label_of d \<noteq> BIN_TYPE) = (\<exists>d \<in> set ?bs. CLASS_MAP (cls d) \<noteq> Some BIN_TYPE)"
    using assms(3) label_of_Some by (metis option.inject)
  then show "\<exists>fr''. detect_and_draw model threshold BIN_TYPE fr' =
            Inr (\<exists>d \<in> set ?bs. CLASS_MAP (cls d) \<noteq> Some BIN_TYPE, fr'')"
    using draw_boxes_ok [OF assms(3), of BIN_TYPE False fr'] by (simp add: detect_and_draw_def)
qed

theorem C1_violation_rule_witness:
  "(\<exists>out w'. analyze_frame (stub_detector wet_then_dry) blank ''dry'' world0 = Inr (out, w') \<and>
       is_violation out) \<and>
   (\<exists>fr''. detect_and_draw (stub_detector dry_then_wet) THRESHOLD ''dry'' blank = Inr (True, fr''))"
proof -
  have a: "stub_detector wet_then_dry blank THRESHOLD = wet_then_dry"
    by (simp add: stub_detector_def THRESHOLD_def wet_then_dry_def)
  have b: "stub_detector dry_then_wet blank THRESHOLD = dry_then_wet"
    by (simp add: stub_detector_def THRESHOLD_def dry_then_wet_def)
  have h1: "stub_detector wet_then_dry blank THRESHOLD \<noteq> []"
    unfolding a by (simp add: wet_then_dry_def)
  have h2: "\<forall>d \<in> set (stub_detector wet_then_dry blank THRESHOLD). cls d \<in> {0, 1}"
    unfolding a by (simp add: wet_then_dry_def)
  have h3: "\<forall>d \<in> set (stub_detector dry_then_wet blank THRESHOLD). cls d \<in> {0, 1}"
    unfolding b by (simp add: dry_then_wet_def)
  have "is_dominant wet_then_dry 0" by code_simp
  then have d: "is_dominant wet_then_dry i \<Longrightarrow> i = 0" for i
    using is_dominant_unique [of wet_then_dry i 0] by simp
  have l: "CLASS_MAP (cls (wet_then_dry ! 0)) \<noteq> Some ''dry''"
    by (simp add: wet_then_dry_def CLASS_MAP_def)
  have e: "\<exists>d \<in> set dry_then_wet. CLASS_MAP (cls d) \<noteq> Some ''dry''"
    by (simp add: dry_then_wet_def CLASS_MAP_def)
  show ?thesis
    using C1_violation_rule [of "stub_detector wet_then_dry" blank "stub_detector dry_then_wet"
        blank THRESHOLD "''dry''" world0 "''dry''", OF h1 h2 h3] d l e
    unfolding a b by auto
qed

text \<open>
  Dry 0.9 before wet 0.6 with the bin dry: the dominant class is the bin's and
  \<open>analyze_frame\<close> reports no violation, while \<open>detect_and_draw\<close> reports one.
\<close>

theorem C1_counterexample:
  "analyze_frame (stub_detector dry_then_wet) blank ''dry'' world0 =
     Inr (\<lparr>class_label = Some ''dry'', wet_dry = Some ''dry'', confidence = Some (9 / 10),
            is_mixed = True, is_violation = False, snapshot_path = None,
            timestamp = ''2026-01-02T12:30:00''\<rparr>, world0\<lparr>reads := 1\<rparr>) \<and>
   detect_and_draw (stub_detector dry_then_wet) THRESHOLD ''dry'' blank =
     Inr (True, blank\<lparr>drawn :=
       [Rectangle (10, 10) (50, 50) (0, 255, 0) 2, PutText ''DRY (0.90)'' (10, 0) (0, 255, 0),
        Rectangle (60, 60) (90, 90) (0, 0, 255) 2, PutText ''WET (0.60)'' (60, 50) (0, 0, 255)]\<rparr>)"
proof
  have b: "stub_detector dry_then_wet blank THRESHOLD = dry_then_wet"
    by (simp add: stub_detector_def THRESHOLD_def dry_then_wet_def)
  have n: "dry_then_wet \<noteq> []" by (simp add: dry_then_wet_def)
  have c: "collect dry_then_wet [] [] = Inr ([''dry'', ''wet''], [9 / 10, 6 / 10])" by code_simp
  have m: "py_max [9 / 10, 6 / 10] = Some (9 / 10)" by code_simp
  have x: "index [9 / 10, 6 / 10] (9 / 10) = Some 0" by code_simp
  have k: "(1 < card (set [''dry'', ''wet''])) = True" by code_simp
  have r: "py_round3 (9 / 10) = 9 / 10" by code_simp
  have t: "isoformat (clock world0 (reads world0)) = ''2026-01-02T12:30:00''" by code_simp
  show "analyze_frame (stub_detector dry_then_wet) blank ''dry'' world0 =
     Inr (\<lparr>class_label = Some ''dry'', wet_dry = Some ''dry'', confidence = Some (9 / 10),
            is_mixed = True, is_violation = False, snapshot_path = None,
            timestamp = ''2026-01-02T12:30:00''\<rparr>, world0\<lparr>reads := 1\<rparr>)"
    using analyze_frame_eval [where MODEL = "stub_detector dry_then_wet" and fr = blank
        and correct_bin = "''dry''" and w = world0, OF b n c m x _ _ k r, of "''dry''"]
    by (simp add: t) (simp add: world0_def)
  show "detect_and_draw (stub_detector dry_then_wet) THRESHOLD ''dry'' blank =
     Inr (True, blank\<lparr>drawn :=
       [Rectangle (10, 10) (50, 50) (0, 255, 0) 2, PutText ''DRY (0.90)'' (10, 0) (0, 255, 0),
        Rectangle (60, 60) (90, 90) (0, 0, 255) 2, PutText ''WET (0.60)'' (60, 50) (0, 0, 255)]\<rparr>)"
    by code_simp
qed

text \<open>
  C2 (as amended). On a non-empty detection sequence with class ids 0 and 1, the class that
  \<open>analyze_frame\<close> reports is the class of the dominant detection: the one of largest
  confidence and, among several of that confidence, the earliest (there is exactly one such
  position). The confidence it reports is that detection's confidence rounded to three
  decimal places, hence a multiple of 0.001 within 0.0005 of it.
\<close>

theorem C2_dominant_detection:
  assumes "MODEL fr THRESHOLD \<noteq> []"
    and "\<forall>d \<in> set (MODEL fr THRESHOLD). cls d \<in> {0, 1}"
  shows "\<exists>i out w'. is_dominant (MODEL fr THRESHOLD) i \<and>
            (\<forall>j. is_dominant (MODEL fr THRESHOLD) j \<longrightarrow> j = i) \<and>
            analyze_frame MODEL fr correct_bin w = Inr (out, w') \<and>
            class_label out = CLASS_MAP (cls (MODEL fr THRESHOLD ! i)) \<and>
            wet_dry out = CLASS_MAP (cls (MODEL fr THRESHOLD ! i)) \<and>
            confidence out = Some (py_round3 (conf (MODEL fr THRESHOLD ! i))) \<and>
            (\<exists>k::int. py_round3 (conf (MODEL fr THRESHOLD ! i)) = of_int k / 1000) \<and>
            \<bar>py_round3 (conf (MODEL fr THRESHOLD ! i)) - conf (MODEL fr THRESHOLD ! i)\<bar> \<le> 1 / 2000"
proof -
  let ?ds = "MODEL fr THRESHOLD"
  obtain i where i: "is_dominant ?ds i"
    and r: "\<And>correct_bin w. analyze_frame MODEL fr correct_bin w =
       (let top = ?ds ! i; v = (label_of top \<noteq> correct_bin)
        in Inr (\<lparr>class_label = Some (label_of top), wet_dry = Some (label_of top),
                 confidence = Some (py_round3 (conf top)),
                 is_mixed = (1 < card (set (map label_of ?ds))),
                 is_violation = v,
                 snapshot_path = (if v then Some (snap_path w) else None),
                 timestamp = isoformat (clock w (if v then Suc (reads w) else reads w))\<rparr>,
                if v then w\<lparr>reads := Suc (Suc (reads w)),
                            snapshots := snapshot_tried w fr\<rparr>
                else w\<lparr>reads := Suc (reads w)\<rparr>))"
    using analyze_frame_nonempty [of MODEL fr] assms by blast
  have u: "\<forall>j. is_dominant ?ds j \<longrightarrow> j = i"
    using i is_dominant_unique by blast
  have "?ds ! i \<in> set ?ds" using i by (simp add: is_dominant_def)
  then have l: "CLASS_MAP (cls (?ds ! i)) = Some (label_of (?ds ! i))"
    using assms(2) label_of_Some by blast
  obtain k :: int where k: "py_round3 (conf (?ds ! i)) = of_int k / 1000"
      "\<bar>py_round3 (conf (?ds ! i)) - conf (?ds ! i)\<bar> \<le> 1 / 2000"
    using py_round3_close [of "conf (?ds ! i)"] by blast
  have "\<exists>out w'. analyze_frame MODEL fr correct_bin w = Inr (out, w') \<and>
      class_label out = Some (label_of (?ds ! i)) \<and> wet_dry out = Some (label_of (?ds ! i)) \<and>
      confidence out = Some (py_round3 (conf (?ds ! i)))"
    by (simp add: r [of correct_bin w] Let_def)
  then show ?thesis
    using i u l k by metis
qed

theorem C2_dominant_detection_witness:
  "\<exists>out w'. analyze_frame (stub_detector tied_boxes) blank ''wet'' world0 = Inr (out, w') \<and>
      class_label out = Some ''wet'' \<and> confidence out = Some (453 / 500)"
proof -
  have a: "stub_detector tied_boxes blank THRESHOLD = tied_boxes"
    by (simp add: stub_detector_def THRESHOLD_def tied_boxes_def)
  have h1: "stub_detector tied_boxes blank THRESHOLD \<noteq> []"
    unfolding a by (simp add: tied_boxes_def)
  have h2: "\<forall>d \<in> set (stub_detector tied_boxes blank THRESHOLD). cls d \<in> {0, 1}"
    unfolding a by (simp add: tied_boxes_def)
  have "is_dominant tied_boxes 1" by code_simp
  then have d: "is_dominant tied_boxes i \<Longrightarrow> i = 1" for i
    using is_dominant_unique [of tied_boxes i 1] by simp
  have l: "CLASS_MAP (cls (tied_boxes ! 1)) = Some ''wet''"
    by (simp add: tied_boxes_def CLASS_MAP_def)
  have c: "py_round3 (conf (tied_boxes ! 1)) = 453 / 500" by code_simp
  obtain i out w' where i: "is_dominant tied_boxes i"
    and r: "analyze_frame (stub_detector tied_boxes) blank ''wet'' world0 = Inr (out, w')"
    and cl: "class_label out = CLASS_MAP (cls (tied_boxes ! i))"
    and co: "confidence out = Some (py_round3 (conf (tied_boxes ! i)))"
    using C2_dominant_detection [of "stub_detector tied_boxes" blank "''wet''" world0, OF h1 h2]
    unfolding a by blast
  have "i = 1" using d [OF i] .
  then show ?thesis using r cl co l c by simp
qed

text \<open>
  A single wet detection of confidence 0.90625: the reported confidence is 0.906.
\<close>

theorem C2_counterexample:
  "analyze_frame (stub_detector one_wet) blank ''wet'' world0 =
     Inr (\<lparr>class_label = Some ''wet'', wet_dry = Some ''wet'', confidence = Some (453 / 500),
            is_mixed = False, is_violation = False, snapshot_path = None,
            timestamp = ''2026-01-02T12:30:00''\<rparr>, world0\<lparr>reads := 1\<rparr>) \<and>
   map conf one_wet = [29 / 32]"
proof
  have b: "stub_detector one_wet blank THRESHOLD = one_wet"
    by (simp add: stub_detector_def THRESHOLD_def one_wet_def)
  have n: "one_wet \<noteq> []" by (simp add: one_wet_def)
  have c: "collect one_wet [] [] = Inr ([''wet''], [29 / 32])" by code_simp
  have m: "py_max [29 / 32] = Some (29 / 32)" by code_simp
  have x: "index [29 / 32] (29 / 32) = Some 0" by code_simp
  have k: "(1 < card (set [''wet''])) = False" by code_simp
  have r: "py_round3 (29 / 32) = 453 / 500" by code_simp
  have t: "isoformat (clock world0 (reads world0)) = ''2026-01-02T12:30:00''" by code_simp
  show "analyze_frame (stub_detector one_wet) blank ''wet'' world0 =
     Inr (\<lparr>class_label = Some ''wet'', wet_dry = Some ''wet'', confidence = Some (453 / 500),
            is_mixed = False, is_violation = False, snapshot_path = None,
            timestamp = ''2026-01-02T12:30:00''\<rparr>, world0\<lparr>reads := 1\<rparr>)"
    using analyze_frame_eval [where MODEL = "stub_detector one_wet" and fr = blank
        and correct_bin = "''wet''" and w = world0, OF b n c m x _ _ k r, of "''wet''"]
    by (simp add: t) (simp add: world0_def)
  show "map conf one_wet = [29 / 32]" by (simp add: one_wet_def)
qed

text \<open>
  C5. On every detection sequence with class ids 0 and 1 (the empty one included),
  \<open>analyze_frame\<close> returns a result whose \<open>is_mixed\<close> is true exactly when the detections
  carry more than one distinct class label.
\<close>

theorem C5_mixed:
  assumes "\<forall>d \<in> set (MODEL fr THRESHOLD). cls d \<in> {0, 1}"
  shows "\<exists>out w'. analyze_frame MODEL fr correct_bin w = Inr (out, w') \<and>
            (is_mixed out \<longleftrightarrow> 1 < card (label_of ` set (MODEL fr THRESHOLD)))"
proof (cases "MODEL fr THRESHOLD = []")
  case True
  then show ?thesis
    using analyze_frame_empty [of MODEL fr correct_bin w] by simp
next
  case False
  then obtain i where "analyze_frame MODEL fr correct_bin w =
       (let top = MODEL fr THRESHOLD ! i; v = (label_of top \<noteq> correct_bin)
        in Inr (\<lparr>class_label = Some (label_of top), wet_dry = Some (label_of top),
                 confidence = Some (py_round3 (conf top)),
                 is_mixed = (1 < card (set (map label_of (MODEL fr THRESHOLD)))),
                 is_violation = v,
                 snapshot_path = (if v then Some (snap_path w) else None),
                 timestamp = isoformat (clock w (if v then Suc (reads w) else reads w))\<rparr>,
                if v then w\<lparr>reads := Suc (Suc (reads w)),
                            snapshots := snapshot_tried w fr\<rparr>
                else w\<lparr>reads := Suc (reads w)\<rparr>))"
    using analyze_frame_nonempty [of MODEL fr] assms by blast
  then show ?thesis by (simp add: Let_def)
qed

theorem C5_mixed_witness:
  "(\<exists>out w'. analyze_frame (stub_detector wet_then_dry) blank ''dry'' world0 = Inr (out, w') \<and>
       is_mixed out) \<and>
   (\<exists>out w'. analyze_frame (stub_detector one_wet) blank ''dry'' world0 = Inr (out, w') \<and>
       \<not> is_mixed out)"
proof -
  have a: "stub_detector wet_then_dry blank THRESHOLD = wet_then_dry"
    by (simp add: stub_detector_def THRESHOLD_def wet_then_dry_def)
  have b: "stub_detector one_wet blank THRESHOLD = one_wet"
    by (simp add: stub_detector_def THRESHOLD_def one_wet_def)
  have h1: "\<forall>d \<in> set (stub_detector wet_then_dry blank THRESHOLD). cls d \<in> {0, 1}"
    unfolding a by (simp add: wet_then_dry_def)
  have h2: "\<forall>d \<in> set (stub_detector one_wet blank THRESHOLD). cls d \<in> {0, 1}"
    unfolding b by (simp add: one_wet_def)
  have c1: "1 < card (label_of ` set wet_then_dry)" by code_simp
  have c2: "\<not> 1 < card (label_of ` set one_wet)" by code_simp
  obtain out w' where r: "analyze_frame (stub_detector wet_then_dry) blank ''dry'' world0 = Inr (out, w')"
    and m: "is_mixed out = (1 < card (label_of ` set wet_then_dry))"
    using C5_mixed [of "stub_detector wet_then_dry" blank "''dry''" world0, OF h1]
    unfolding a by blast
  obtain out2 w2 where r2: "analyze_frame (stub_detector one_wet) blank ''dry'' world0 = Inr (out2, w2)"
    and m2: "is_mixed out2 = (1 < card (label_of ` set one_wet))"
    using C5_mixed [of "stub_detector one_wet" blank "''dry''" world0, OF h2]
    unfolding b by blast
  have "is_mixed out" using m c1 by blast
  moreover have "\<not> is_mixed out2" using m2 c2 by blast
  ultimately show ?thesis using r r2 by blast
qed

text \<open>
  C8 (as amended). \<open>analyze_frame\<close> does not look at the range of the confidences: it returns
  a result exactly when every class id of the sequence is 0 or 1, whatever the confidences
  are, and the only error it raises is the KeyError of a class id outside 0 and 1.
\<close>

theorem C8_no_range_check:
  "((\<exists>r. analyze_frame MODEL fr correct_bin w = Inr r) \<longleftrightarrow>
      (\<forall>d \<in> set (MODEL fr THRESHOLD). cls d \<in> {0, 1})) \<and>
   (\<forall>e. analyze_frame MODEL fr correct_bin w = Inl e \<longrightarrow> (\<exists>k. e = KeyError k \<and> k \<notin> {0, 1}))"
proof (intro conjI iffI allI impI)
  assume "\<exists>r. analyze_frame MODEL fr correct_bin w = Inr r"
  then show "\<forall>d \<in> set (MODEL fr THRESHOLD). cls d \<in> {0, 1}"
    using analyze_frame_err [of _ MODEL fr correct_bin] by fastforce
next
  assume ok: "\<forall>d \<in> set (MODEL fr THRESHOLD). cls d \<in> {0, 1}"
  show "\<exists>r. analyze_frame MODEL fr correct_bin w = Inr r"
  proof (cases "analyze_frame MODEL fr correct_bin w")
    case (Inl e)
    then show ?thesis using analyze_frame_fails ok by blast
  next
    case (Inr r)
    then show ?thesis by blast
  qed
next
  fix e
  assume e: "analyze_frame MODEL fr correct_bin w = Inl e"
  then obtain d where "d \<in> set (MODEL fr THRESHOLD)" "cls d \<notin> {0, 1}"
    using analyze_frame_fails by blast
  then obtain k where "k \<notin> {0, 1}" "analyze_frame MODEL fr correct_bin w = Inl (KeyError k)"
    using analyze_frame_err [of d MODEL fr correct_bin] by blast
  then show "\<exists>k. e = KeyError k \<and> k \<notin> {0, 1}" using e by auto
qed

theorem C8_no_range_check_witness:
  "(\<exists>r. analyze_frame (stub_detector overconfident) blank ''dry'' world0 = Inr r) \<and>
   analyze_frame (stub_detector unknown_class) blank ''dry'' world0 = Inl (KeyError 2)"
proof -
  have a: "stub_detector overconfident blank THRESHOLD = overconfident"
    by (simp add: stub_detector_def THRESHOLD_def overconfident_def)
  have b: "stub_detector unknown_class blank THRESHOLD = unknown_class"
    by (simp add: stub_detector_def THRESHOLD_def unknown_class_def)
  have h: "\<forall>d \<in> set (stub_detector overconfident blank THRESHOLD). cls d \<in> {0, 1}"
    unfolding a by (simp add: overconfident_def)
  have 1: "\<exists>r. analyze_frame (stub_detector overconfident) blank ''dry'' world0 = Inr r"
    using C8_no_range_check [of "stub_detector overconfident" blank "''dry''" world0] h by blast
  have c: "collect unknown_class [] [] = Inl (KeyError 2)" by code_simp
  have 2: "analyze_frame (stub_detector unknown_class) blank ''dry'' world0 = Inl (KeyError 2)"
    unfolding analyze_frame_def b by (simp add: c) (simp add: unknown_class_def)
  show ?thesis using 1 2 by blast
qed

text \<open>
  A dry detection of confidence 1.5: \<open>analyze_frame\<close> returns a result that reports 1.5.
\<close>

theorem C8_counterexample:
  "analyze_frame (stub_detector overconfident) blank ''dry'' world0 =
     Inr (\<lparr>class_label = Some ''dry'', wet_dry = Some ''dry'', confidence = Some (3 / 2),
            is_mixed = False, is_violation = False, snapshot_path = None,
            timestamp = ''2026-01-02T12:30:00''\<rparr>, world0\<lparr>reads := 1\<rparr>) \<and>
   map conf overconfident = [3 / 2]"
proof
  have b: "stub_detector overconfident blank THRESHOLD = overconfident"
    by (simp add: stub_detector_def THRESHOLD_def overconfident_def)
  have n: "overconfident \<noteq> []" by (simp add: overconfident_def)
  have c: "collect overconfident [] [] = Inr ([''dry''], [3 / 2])" by code_simp
  have m: "py_max [3 / 2] = Some (3 / 2)" by code_simp
  have x: "index [3 / 2] (3 / 2) = Some 0" by code_simp
  have k: "(1 < card (set [''dry''])) = False" by code_simp
  have r: "py_round3 (3 / 2) = 3 / 2" by code_simp
  have t: "isoformat (clock world0 (reads world0)) = ''2026-01-02T12:30:00''" by code_simp
  show "analyze_frame (stub_detector overconfident) blank ''dry'' world0 =
     Inr (\<lparr>class_label = Some ''dry'', wet_dry = Some ''dry'', confidence = Some (3 / 2),
            is_mixed = False, is_violation = False, snapshot_path = None,
            timestamp = ''2026-01-02T12:30:00''\<rparr>, world0\<lparr>reads := 1\<rparr>)"
    using analyze_frame_eval [where MODEL = "stub_detector overconfident" and fr = blank
        and correct_bin = "''dry''" and w = world0, OF b n c m x _ _ k r, of "''dry''"]
    by (simp add: t) (simp add: world0_def)
  show "map conf overconfident = [3 / 2]" by (simp add: overconfident_def)
qed

text \<open>
  C10. When some detection has a class id other than 0 and 1, \<open>analyze_frame\<close> and
  \<open>detect_and_draw\<close> raise KeyError (for such an id) instead of returning a result: the keys
  of \<open>CLASS_MAP\<close> are exactly 0 and 1.
\<close>

theorem C10_unknown_class_id:
  assumes "d \<in> set (MODEL fr THRESHOLD)" and "cls d \<notin> {0, 1}"
    and "d' \<in> set (model fr' threshold)" and "cls d' \<notin> {0, 1}"
  shows "(\<exists>k. k \<notin> {0, 1} \<and> analyze_frame MODEL fr correct_bin w = Inl (KeyError k)) \<and>
         (\<exists>k. k \<notin> {0, 1} \<and> detect_and_draw model threshold BIN_TYPE fr' = Inl (KeyError k)) \<and>
         dom CLASS_MAP = {0, 1}"
proof (intro conjI)
  show "\<exists>k. k \<notin> {0, 1} \<and> analyze_frame MODEL fr correct_bin w = Inl (KeyError k)"
    using analyze_frame_err [of d MODEL fr correct_bin] assms(1,2) by blast
  show "\<exists>k. k \<notin> {0, 1} \<and> detect_and_draw model threshold BIN_TYPE fr' = Inl (KeyError k)"
    using draw_boxes_err [of d' "model fr' threshold" BIN_TYPE False fr'] assms(3,4)
    by (simp add: detect_and_draw_def)
  show "dom CLASS_MAP = {0, 1}"
    by (auto simp: CLASS_MAP_def split: if_splits)
qed

theorem C10_unknown_class_id_witness:
  "analyze_frame (stub_detector unknown_class) blank ''dry'' world0 = Inl (KeyError 2) \<and>
   detect_and_draw (stub_detector unknown_class) THRESHOLD ''dry'' blank = Inl (KeyError 2)"
proof -
  have b: "stub_detector unknown_class blank THRESHOLD = unknown_class"
    by (simp add: stub_detector_def THRESHOLD_def unknown_class_def)
  have m: "\<lparr>cls = 2, conf = 6 / 10, xyxy = (60, 60, 90, 90)\<rparr>
      \<in> set (stub_detector unknown_class blank THRESHOLD)"
    unfolding b by (simp add: unknown_class_def)
  have c: "cls \<lparr>cls = 2, conf = 6 / 10, xyxy = (60, 60, 90, 90)\<rparr> \<notin> {0, 1}" by simp
  obtain k k' where k: "analyze_frame (stub_detector unknown_class) blank ''dry'' world0 = Inl (KeyError k)"
    and k': "detect_and_draw (stub_detector unknown_class) THRESHOLD ''dry'' blank = Inl (KeyError k')"
    using C10_unknown_class_id [of "\<lparr>cls = 2, conf = 6 / 10, xyxy = (60, 60, 90, 90)\<rparr>"
        "stub_detector unknown_class" blank "\<lparr>cls = 2, conf = 6 / 10, xyxy = (60, 60, 90, 90)\<rparr>"
        "stub_detector unknown_class" blank THRESHOLD "''dry''" world0 "''dry''", OF m c m c]
    by blast
  have "collect unknown_class [] [] = Inl (KeyError 2)" by code_simp
  then have "analyze_frame (stub_detector unknown_class) blank ''dry'' world0 = Inl (KeyError 2)"
    unfolding analyze_frame_def b by (simp add: unknown_class_def)
  moreover have "detect_and_draw (stub_detector unknown_class) THRESHOLD ''dry'' blank = Inl (KeyError 2)"
    by code_simp
  ultimately show ?thesis using k k' by simp
qed

text \<open>
  C7 (as amended). The classifying fields of the result of \<open>analyze_frame\<close> (class, wet_dry,
  confidence, is_mixed, is_violation), and whether and how it fails, are a function of the
  detection sequence and the expected bin alone: two invocations whose detectors report the
  same sequence agree on them, whatever the detectors, the frames and the states of clock
  and disk are. The function is not free of effects: it reads the clock for the timestamp
  of the result and, exactly when \<open>is_violation\<close> is true, hands the frame to \<open>cv2.imwrite\<close>
  under a path named after the time and returns that path whether or not the file was
  written: the file exists afterwards when the write succeeds, and the snapshot directory
  is as before when it fails. When \<open>is_violation\<close> is false it leaves the snapshot
  directory as it was.
\<close>

theorem C7_effects:
  fixes MODEL :: "'p detector" and MODEL' :: "'q detector"
  assumes "MODEL fr THRESHOLD = MODEL' fr' THRESHOLD"
  shows "map_sum id (verdict \<circ> fst) (analyze_frame MODEL fr correct_bin w) =
           map_sum id (verdict \<circ> fst) (analyze_frame MODEL' fr' correct_bin w2) \<and>
   (analyze_frame MODEL fr correct_bin w = Inr (out, w') \<longrightarrow>
      clock w' = clock w \<and> can_write w' = can_write w \<and>
      (is_violation out \<longrightarrow>
         snapshot_path out = Some (snap_path w) \<and>
         (can_write w (snap_path w) \<longrightarrow> snapshots w' = (snapshots w)(snap_path w \<mapsto> fr)) \<and>
         (\<not> can_write w (snap_path w) \<longrightarrow> snapshots w' = snapshots w) \<and>
         reads w' = reads w + 2 \<and>
         timestamp out = isoformat (clock w (Suc (reads w)))) \<and>
      (\<not> is_violation out \<longrightarrow>
         snapshot_path out = None \<and> snapshots w' = snapshots w \<and>
         reads w' = reads w + 1 \<and>
         timestamp out = isoformat (clock w (reads w))))"
proof
  show "map_sum id (verdict \<circ> fst) (analyze_frame MODEL fr correct_bin w) =
           map_sum id (verdict \<circ> fst) (analyze_frame MODEL' fr' correct_bin w2)"
    using assms by (rule analyze_frame_verdict)
  consider (err) k where "\<forall>w. analyze_frame MODEL fr correct_bin w = Inl (KeyError k)"
    | (ok) c s m v where "\<forall>w. analyze_frame MODEL fr correct_bin w =
      Inr (\<lparr>class_label = c, wet_dry = c, confidence = s, is_mixed = m, is_violation = v,
             snapshot_path = (if v then Some (snap_path w) else None),
             timestamp = isoformat (clock w (if v then Suc (reads w) else reads w))\<rparr>,
           if v then w\<lparr>reads := Suc (Suc (reads w)),
                       snapshots := snapshot_tried w fr\<rparr>
           else w\<lparr>reads := Suc (reads w)\<rparr>)"
    using analyze_frame_shape [of MODEL fr correct_bin] by blast
  then show "analyze_frame MODEL fr correct_bin w = Inr (out, w') \<longrightarrow>
      clock w' = clock w \<and> can_write w' = can_write w \<and>
      (is_violation out \<longrightarrow>
         snapshot_path out = Some (snap_path w) \<and>
         (can_write w (snap_path w) \<longrightarrow> snapshots w' = (snapshots w)(snap_path w \<mapsto> fr)) \<and>
         (\<not> can_write w (snap_path w) \<longrightarrow> snapshots w' = snapshots w) \<and>
         reads w' = reads w + 2 \<and>
         timestamp out = isoformat (clock w (Suc (reads w)))) \<and>
      (\<not> is_violation out \<longrightarrow>
         snapshot_path out = None \<and> snapshots w' = snapshots w \<and>
         reads w' = reads w + 1 \<and>
         timestamp out = isoformat (clock w (reads w)))"
  proof cases
    case err
    then show ?thesis by simp
  next
    case ok
    show ?thesis
      by (cases v) (auto simp: ok snapshot_tried_def)
  qed
qed

theorem C7_effects_witness:
  "(\<exists>out w'. analyze_frame (stub_detector wet_then_dry) blank ''dry'' world0 = Inr (out, w') \<and>
      snapshots w' ''snapshots/violation_20260102_123000.jpg'' = Some blank \<and>
      reads w' = 2) \<and>
   (\<exists>out w'. analyze_frame (stub_detector wet_then_dry) blank ''dry'' full_disk = Inr (out, w') \<and>
      snapshot_path out = Some ''snapshots/violation_20260102_123000.jpg'' \<and>
      snapshots w' = snapshots full_disk) \<and>
   (\<exists>out w'. analyze_frame (stub_detector one_wet) blank ''wet'' world0 = Inr (out, w') \<and>
      snapshots w' = snapshots world0 \<and> reads w' = 1) \<and>
   map_sum id (verdict \<circ> fst)
      (analyze_frame (stub_detector dry_then_wet) marked ''dry'' full_disk) =
     Inr (Some ''dry'', Some ''dry'', Some (9 / 10), True, False)"
proof -
  have a: "stub_detector wet_then_dry blank THRESHOLD = wet_then_dry"
    by (simp add: stub_detector_def THRESHOLD_def wet_then_dry_def)
  have b: "stub_detector one_wet blank THRESHOLD = one_wet"
    by (simp add: stub_detector_def THRESHOLD_def one_wet_def)
  have c: "stub_detector dry_then_wet blank THRESHOLD = dry_then_wet"
    by (simp add: stub_detector_def THRESHOLD_def dry_then_wet_def)
  have c': "stub_detector dry_then_wet marked THRESHOLD = dry_then_wet"
    by (simp add: stub_detector_def THRESHOLD_def dry_then_wet_def)
  have na: "wet_then_dry \<noteq> []" by (simp add: wet_then_dry_def)
  have nb: "one_wet \<noteq> []" by (simp add: one_wet_def)
  have nc: "dry_then_wet \<noteq> []" by (simp add: dry_then_wet_def)
  have ca: "collect wet_then_dry [] [] = Inr ([''wet'', ''dry''], [9 / 10, 6 / 10])" by code_simp
  have cb: "collect one_wet [] [] = Inr ([''wet''], [29 / 32])" by code_simp
  have cc: "collect dry_then_wet [] [] = Inr ([''dry'', ''wet''], [9 / 10, 6 / 10])" by code_simp
  have ma: "py_max [9 / 10, 6 / 10] = Some (9 / 10)" by code_simp
  have mb: "py_max [29 / 32] = Some (29 / 32)" by code_simp
  have xa: "index [9 / 10, 6 / 10] (9 / 10) = Some 0" by code_simp
  have xb: "index [29 / 32] (29 / 32) = Some 0" by code_simp
  have ka: "(1 < card (set [''wet'', ''dry''])) = True" by code_simp
  have kb: "(1 < card (set [''wet''])) = False" by code_simp
  have kc: "(1 < card (set [''dry'', ''wet''])) = True" by code_simp
  have ra: "py_round3 (9 / 10) = 9 / 10" by code_simp
  have rb: "py_round3 (29 / 32) = 453 / 500" by code_simp
  have s0: "strftime (tick_clock 0) = ''20260102_123000''" by code_simp
  have p: "snap_path world0 = ''snapshots/violation_20260102_123000.jpg''"
    by (simp add: snap_path_def world0_def s0)
  have pf: "snap_path full_disk = ''snapshots/violation_20260102_123000.jpg''"
    by (simp add: snap_path_def full_disk_def s0)
  have cw: "can_write world0 (snap_path world0)" by (simp add: world0_def)
  have cf: "\<not> can_write full_disk (snap_path full_disk)" by (simp add: full_disk_def)
  obtain out w' where 1: "analyze_frame (stub_detector wet_then_dry) blank ''dry'' world0 = Inr (out, w')"
    and v1: "is_violation out"
    using analyze_frame_eval [where MODEL = "stub_detector wet_then_dry" and fr = blank
        and correct_bin = "''dry''" and w = world0, OF a na ca ma xa _ _ ka ra, of "''wet''"]
    by simp
  obtain outf wf where f: "analyze_frame (stub_detector wet_then_dry) blank ''dry'' full_disk = Inr (outf, wf)"
    and vf: "is_violation outf"
    using analyze_frame_eval [where MODEL = "stub_detector wet_then_dry" and fr = blank
        and correct_bin = "''dry''" and w = full_disk, OF a na ca ma xa _ _ ka ra, of "''wet''"]
    by simp
  obtain out2 w2 where 2: "analyze_frame (stub_detector one_wet) blank ''wet'' world0 = Inr (out2, w2)"
    and v2: "\<not> is_violation out2"
    using analyze_frame_eval [where MODEL = "stub_detector one_wet" and fr = blank
        and correct_bin = "''wet''" and w = world0, OF b nb cb mb xb _ _ kb rb, of "''wet''"]
    by simp
  obtain out3 w3 where 3: "analyze_frame (stub_detector dry_then_wet) blank ''dry'' world0 = Inr (out3, w3)"
    and o3: "verdict out3 = (Some ''dry'', Some ''dry'', Some (9 / 10), True, False)"
    using analyze_frame_eval [where MODEL = "stub_detector dry_then_wet" and fr = blank
        and correct_bin = "''dry''" and w = world0, OF c nc cc ma xa _ _ kc ra, of "''dry''"]
    by (simp add: verdict_def)
  have same: "stub_detector wet_then_dry blank THRESHOLD = stub_detector wet_then_dry blank THRESHOLD"
    "stub_detector one_wet blank THRESHOLD = stub_detector one_wet blank THRESHOLD" by simp_all
  have same3: "stub_detector dry_then_wet blank THRESHOLD = stub_detector dry_then_wet marked THRESHOLD"
    using c c' by simp
  have e1: "snapshots w' = (snapshots world0)(snap_path world0 \<mapsto> blank)" "reads w' = reads world0 + 2"
    using C7_effects [of "stub_detector wet_then_dry" blank "stub_detector wet_then_dry" blank
        "''dry''" world0 world0 out w', OF same(1)] 1 v1 cw by blast+
  have ef: "snapshot_path outf = Some (snap_path full_disk)" "snapshots wf = snapshots full_disk"
    using C7_effects [of "stub_detector wet_then_dry" blank "stub_detector wet_then_dry" blank
        "''dry''" full_disk full_disk outf wf, OF same(1)] f vf cf by blast+
  have e2: "snapshots w2 = snapshots world0" "reads w2 = reads world0 + 1"
    using C7_effects [of "stub_detector one_wet" blank "stub_detector one_wet" blank
        "''wet''" world0 world0 out2 w2, OF same(2)] 2 v2 by blast+
  have s3: "map_sum id (verdict \<circ> fst) (analyze_frame (stub_detector dry_then_wet) blank ''dry'' world0) =
       map_sum id (verdict \<circ> fst) (analyze_frame (stub_detector dry_then_wet) marked ''dry'' full_disk)"
    using C7_effects [of "stub_detector dry_then_wet" blank "stub_detector dry_then_wet" marked
        "''dry''" world0 full_disk out3 w3, OF same3] by blast
  have A: "snapshots w' ''snapshots/violation_20260102_123000.jpg'' = Some blank \<and> reads w' = 2"
    using e1 p by (simp add: world0_def)
  have B: "snapshot_path outf = Some ''snapshots/violation_20260102_123000.jpg'' \<and>
      snapshots wf = snapshots full_disk"
    using ef pf by simp
  have C: "snapshots w2 = snapshots world0 \<and> reads w2 = 1"
    using e2 by (simp add: world0_def)
  have D: "map_sum id (verdict \<circ> fst)
      (analyze_frame (stub_detector dry_then_wet) marked ''dry'' full_disk) =
     Inr (Some ''dry'', Some ''dry'', Some (9 / 10), True, False)"
    using s3 3 o3 by simp
  show ?thesis using 1 f 2 A B C D by blast
qed

text \<open>
  Wet 0.9 before dry 0.6 with the bin dry, twice in a row on a disk that takes the writes:
  the first invocation creates a snapshot file, and the second returns another snapshot
  path and timestamp and creates a second file.
\<close>

theorem C7_counterexample:
  "analyze_frame (stub_detector wet_then_dry) blank ''dry'' world0 =
     Inr (\<lparr>class_label = Some ''wet'', wet_dry = Some ''wet'', confidence = Some (9 / 10),
            is_mixed = True, is_violation = True,
            snapshot_path = Some ''snapshots/violation_20260102_123000.jpg'',
            timestamp = ''2026-01-02T12:30:01''\<rparr>,
          world0\<lparr>reads := 2,
                   snapshots := [''snapshots/violation_20260102_123000.jpg'' \<mapsto> blank]\<rparr>) \<and>
   analyze_frame (stub_detector wet_then_dry) blank ''dry''
       (world0\<lparr>reads := 2,
                snapshots := [''snapshots/violation_20260102_123000.jpg'' \<mapsto> blank]\<rparr>) =
     Inr (\<lparr>class_label = Some ''wet'', wet_dry = Some ''wet'', confidence = Some (9 / 10),
            is_mixed = True, is_violation = True,
            snapshot_path = Some ''snapshots/violation_20260102_123002.jpg'',
            timestamp = ''2026-01-02T12:30:03''\<rparr>,
          world0\<lparr>reads := 4,
                   snapshots := [''snapshots/violation_20260102_123000.jpg'' \<mapsto> blank,
                                 ''snapshots/violation_20260102_123002.jpg'' \<mapsto> blank]\<rparr>) \<and>
   snapshots world0 ''snapshots/violation_20260102_123000.jpg'' = None"
proof -
  have a: "stub_detector wet_then_dry blank THRESHOLD = wet_then_dry"
    by (simp add: stub_detector_def THRESHOLD_def wet_then_dry_def)
  have na: "wet_then_dry \<noteq> []" by (simp add: wet_then_dry_def)
  have ca: "collect wet_then_dry [] [] = Inr ([''wet'', ''dry''], [9 / 10, 6 / 10])" by code_simp
  have ma: "py_max [9 / 10, 6 / 10] = Some (9 / 10)" by code_simp
  have xa: "index [9 / 10, 6 / 10] (9 / 10) = Some 0" by code_simp
  have ka: "(1 < card (set [''wet'', ''dry''])) = True" by code_simp
  have ra: "py_round3 (9 / 10) = 9 / 10" by code_simp
  have p0: "strftime (tick_clock 0) = ''20260102_123000''" by code_simp
  have p2: "strftime (tick_clock 2) = ''20260102_123002''" by code_simp
  have t1: "isoformat (tick_clock (Suc 0)) = ''2026-01-02T12:30:01''" by code_simp
  have t3: "isoformat (tick_clock 3) = ''2026-01-02T12:30:03''" by code_simp
  have e: "analyze_frame (stub_detector wet_then_dry) blank ''dry'' w =
      Inr (\<lparr>class_label = Some ''wet'', wet_dry = Some ''wet'', confidence = Some (9 / 10),
                  is_mixed = True, is_violation = True, snapshot_path = Some (snap_path w),
                  timestamp = isoformat (clock w (Suc (reads w)))\<rparr>,
                w\<lparr>reads := Suc (Suc (reads w)), snapshots := snapshot_tried w blank\<rparr>)"
    for w
    using analyze_frame_eval [where MODEL = "stub_detector wet_then_dry" and fr = blank
        and correct_bin = "''dry''" and w = w, OF a na ca ma xa _ _ ka ra, of "''wet''"]
    by simp
  have 1: "analyze_frame (stub_detector wet_then_dry) blank ''dry'' world0 =
     Inr (\<lparr>class_label = Some ''wet'', wet_dry = Some ''wet'', confidence = Some (9 / 10),
            is_mixed = True, is_violation = True,
            snapshot_path = Some ''snapshots/violation_20260102_123000.jpg'',
            timestamp = ''2026-01-02T12:30:01''\<rparr>,
          world0\<lparr>reads := 2,
                   snapshots := [''snapshots/violation_20260102_123000.jpg'' \<mapsto> blank]\<rparr>)"
    unfolding e by (simp add: snapshot_tried_def snap_path_def world0_def p0 t1)
  have 2: "analyze_frame (stub_detector wet_then_dry) blank ''dry''
       (world0\<lparr>reads := 2,
                snapshots := [''snapshots/violation_20260102_123000.jpg'' \<mapsto> blank]\<rparr>) =
     Inr (\<lparr>class_label = Some ''wet'', wet_dry = Some ''wet'', confidence = Some (9 / 10),
            is_mixed = True, is_violation = True,
            snapshot_path = Some ''snapshots/violation_20260102_123002.jpg'',
            timestamp = ''2026-01-02T12:30:03''\<rparr>,
          world0\<lparr>reads := 4,
                   snapshots := [''snapshots/violation_20260102_123000.jpg'' \<mapsto> blank,
                                 ''snapshots/violation_20260102_123002.jpg'' \<mapsto> blank]\<rparr>)"
    unfolding e by (simp add: snapshot_tried_def snap_path_def world0_def p2 t3)
  have 3: "snapshots world0 ''snapshots/violation_20260102_123000.jpg'' = None"
    by (simp add: world0_def)
  show ?thesis using 1 2 3 by blast
qed

section \<open>The dataset conversion\<close>

text \<open>
  C3 (as amended). For \<open>n\<close> distinct image identifiers, in the order of the manifest, and a
  seed, whatever permutation the shuffle applies: the first \<open>\<lfloor>0.8 n\<rfloor>\<close> identifiers of the
  shuffled order form train, the next \<open>\<lfloor>0.9 n\<rfloor> - \<lfloor>0.8 n\<rfloor>\<close> form val and the rest form test;
  the three sets are pairwise disjoint and their union is the input set; their sizes are
  \<open>\<lfloor>0.8 n\<rfloor>\<close>, \<open>\<lfloor>0.9 n\<rfloor> - \<lfloor>0.8 n\<rfloor>\<close> and \<open>n - \<lfloor>0.9 n\<rfloor>\<close>, that is 80, 10 and 10 for
  \<open>n = 100\<close>; and every run on the same list of identifiers with the same seed yields the
  same three sets, in whatever state the generator was before the script seeded it. The
  assignment belongs to the list, not to the set of its members: the same identifiers in
  another order are split differently.
\<close>

theorem C3_split:
  assumes "distinct ids"
    and "mset (fst (random_shuffle R (random_seed R seed) ids)) = mset ids"
  shows "\<exists>train_ids val_ids test_ids.
     splits R seed g0 ids = (train_ids, val_ids, test_ids) \<and>
     train_ids = set (take (4 * length ids div 5) (fst (random_shuffle R (random_seed R seed) ids))) \<and>
     val_ids = set (take (9 * length ids div 10 - 4 * length ids div 5)
                      (drop (4 * length ids div 5)
                         (fst (random_shuffle R (random_seed R seed) ids)))) \<and>
     test_ids = set (drop (9 * length ids div 10)
                      (fst (random_shuffle R (random_seed R seed) ids))) \<and>
     train_ids \<inter> val_ids = {} \<and> train_ids \<inter> test_ids = {} \<and> val_ids \<inter> test_ids = {} \<and>
     train_ids \<union> val_ids \<union> test_ids = set ids \<and>
     card train_ids = 4 * length ids div 5 \<and>
     card val_ids = 9 * length ids div 10 - 4 * length ids div 5 \<and>
     card test_ids = length ids - 9 * length ids div 10 \<and>
     (length ids = 100 \<longrightarrow> card train_ids = 80 \<and> card val_ids = 10 \<and> card test_ids = 10) \<and>
     (\<forall>g. splits R seed g ids = (train_ids, val_ids, test_ids))"
proof -
  let ?s = "fst (random_shuffle R (random_seed R seed) ids)"
  let ?n = "length ids"
  let ?a = "4 * ?n div 5"
  let ?b = "9 * ?n div 10"
  have len: "length ?s = ?n" using assms(2) by (rule mset_eq_length)
  have dist: "distinct ?s" using assms by (metis mset_eq_imp_distinct_iff)
  have sets: "set ?s = set ids" using assms(2) by (rule mset_eq_setD)
  have ab: "?a \<le> ?b" by linarith
  have bn: "?b \<le> ?n" by linarith
  have sp: "splits R seed g ids = (set (take ?a ?s), set (drop ?a (take ?b ?s)), set (drop ?b ?s))"
    for g
    by (simp add: splits_def Let_def len train_end_div val_end_div split_beta)
  have dt: "drop ?a (take ?b ?s) = take (?b - ?a) (drop ?a ?s)" by (rule drop_take)
  note p = split_parts [OF dist ab]
  define train_ids where "train_ids = set (take ?a ?s)"
  define val_ids where "val_ids = set (drop ?a (take ?b ?s))"
  define test_ids where "test_ids = set (drop ?b ?s)"
  have sp': "splits R seed g0 ids = (train_ids, val_ids, test_ids)"
    using sp by (simp add: train_ids_def val_ids_def test_ids_def)
  have det: "\<forall>g. splits R seed g ids = (train_ids, val_ids, test_ids)"
    using sp by (simp add: train_ids_def val_ids_def test_ids_def)
  have v: "val_ids = set (take (?b - ?a) (drop ?a ?s))"
    using dt by (simp add: val_ids_def)
  have c1: "card train_ids = ?a" using p(5) ab bn len by (simp add: train_ids_def)
  have c2: "card val_ids = ?b - ?a" using p(6) bn len by (simp add: val_ids_def)
  have c3: "card test_ids = ?n - ?b" using p(7) len by (simp add: test_ids_def)
  have h: "?n = 100 \<longrightarrow> card train_ids = 80 \<and> card val_ids = 10 \<and> card test_ids = 10"
    using c1 c2 c3 by simp
  have dj: "train_ids \<inter> val_ids = {}" "train_ids \<inter> test_ids = {}" "val_ids \<inter> test_ids = {}"
    using p(1-3) by (simp_all add: train_ids_def val_ids_def test_ids_def)
  have un: "train_ids \<union> val_ids \<union> test_ids = set ids"
    using p(4) sets by (simp add: train_ids_def val_ids_def test_ids_def)
  have tr: "train_ids = set (take ?a ?s)" and te: "test_ids = set (drop ?b ?s)"
    by (simp_all add: train_ids_def test_ids_def)
  show ?thesis
    by (rule exI [of _ train_ids], rule exI [of _ val_ids], rule exI [of _ test_ids])
      (intro conjI sp' tr v te dj un c1 c2 c3 h det)
qed

theorem C3_split_witness:
  "\<exists>train_ids val_ids test_ids.
     splits rotate_lib 42 7 [1..100] = (train_ids, val_ids, test_ids) \<and>
     splits rotate_lib 42 0 [1..100] = (train_ids, val_ids, test_ids) \<and>
     card train_ids = 80 \<and> card val_ids = 10 \<and> card test_ids = 10 \<and>
     train_ids \<inter> val_ids = {} \<and> train_ids \<union> val_ids \<union> test_ids = set [1..100]"
proof -
  have d: "distinct [1..100::int]" by simp
  have m: "mset (fst (random_shuffle rotate_lib (random_seed rotate_lib 42) [1..100])) = mset [1..100]"
    by (simp only: rotate_lib_def random_lib.simps fst_conv mset_rotate_eq)
  have l: "length [1..100::int] = 100" by simp
  from C3_split [of "[1..100]" rotate_lib 42 7, OF d m]
  obtain tr va te where sp: "splits rotate_lib 42 7 [1..100] = (tr, va, te)"
    and h: "length [1..100::int] = 100 \<longrightarrow> card tr = 80 \<and> card va = 10 \<and> card te = 10"
    and dj: "tr \<inter> va = {}" and un: "tr \<union> va \<union> te = set [1..100]"
    and det: "\<forall>g. splits rotate_lib 42 g [1..100] = (tr, va, te)"
    by (elim exE conjE) (rule that; assumption)
  have c: "card tr = 80" "card va = 10" "card te = 10" using h l by simp_all
  have sp0: "splits rotate_lib 42 0 [1..100] = (tr, va, te)" using det by simp
  show ?thesis
    by (rule exI [of _ tr], rule exI [of _ va], rule exI [of _ te]) (intro conjI sp sp0 c dj un)
qed

text \<open>
  The identifiers 1 to 10 in rising and in falling order are the same set, and with the same
  seed they are split differently.
\<close>

theorem C3_counterexample:
  "set (rev [1..10]) = set [1..10] \<and>
   splits rotate_lib 42 0 [1..10] = ({3, 4, 5, 6, 7, 8, 9, 10}, {1}, {2}) \<and>
   splits rotate_lib 42 0 (rev [1..10]) = ({1, 2, 3, 4, 5, 6, 7, 8}, {10}, {9})"
proof (intro conjI)
  show "set (rev [1..10]) = set [1..10]" by simp
  show "splits rotate_lib 42 0 [1..10] = ({3, 4, 5, 6, 7, 8, 9, 10}, {1}, {2})"
    by code_simp
  show "splits rotate_lib 42 0 (rev [1..10]) = ({1, 2, 3, 4, 5, 6, 7, 8}, {10}, {9})"
    by code_simp
qed




end
